theory Spec2Isabelle
  imports Complex_Main "HOL-Library.Sublist"
begin

section \<open>JavaScript strings\<close>

text \<open>
  A JavaScript string is a sequence of UTF-16 code units. The regular expressions of
  \<^verbatim>\<open>VoiceReader\<close> carry no \<^verbatim>\<open>u\<close> flag, so they match code unit by code unit. A code
  unit is modelled by its number; a string literal of the source that is plain ASCII is
  written with \<open>ascii\<close>.
\<close>

type_synonym jchar = nat
type_synonym jsstring = "jchar list"

definition ascii :: "string \<Rightarrow> jsstring" where
  "ascii s = map of_char s"

text \<open>\<^verbatim>\<open>\s\<close> of a regular expression, which is also the set \<^verbatim>\<open>String.prototype.trim\<close>
  strips: WhiteSpace and LineTerminator of ECMAScript.\<close>

definition is_space :: "jchar \<Rightarrow> bool" where
  "is_space c \<longleftrightarrow>
     c = 0x09 \<or> c = 0x0A \<or> c = 0x0B \<or> c = 0x0C \<or> c = 0x0D \<or> c = 0x20 \<or>
     c = 0xA0 \<or> c = 0x1680 \<or> (0x2000 \<le> c \<and> c \<le> 0x200A) \<or>
     c = 0x2028 \<or> c = 0x2029 \<or> c = 0x202F \<or> c = 0x205F \<or> c = 0x3000 \<or> c = 0xFEFF"

text \<open>\<^verbatim>\<open>\w\<close>: the ASCII letters, the digits and the underscore.\<close>

definition is_word :: "jchar \<Rightarrow> bool" where
  "is_word c \<longleftrightarrow>
     (0x41 \<le> c \<and> c \<le> 0x5A) \<or> (0x61 \<le> c \<and> c \<le> 0x7A) \<or>
     (0x30 \<le> c \<and> c \<le> 0x39) \<or> c = 0x5F"

text \<open>\<^verbatim>\<open>\u0900-\u097F\<close>: the Devanagari block.\<close>

definition is_devanagari :: "jchar \<Rightarrow> bool" where
  "is_devanagari c \<longleftrightarrow> 0x900 \<le> c \<and> c \<le> 0x97F"

text \<open>The punctuation of the character class: \<^verbatim>\<open>.,!?;:()\-""''\<close>.\<close>

definition is_punct :: "jchar \<Rightarrow> bool" where
  "is_punct c \<longleftrightarrow>
     c = 0x2E \<or> c = 0x2C \<or> c = 0x21 \<or> c = 0x3F \<or> c = 0x3B \<or> c = 0x3A \<or>
     c = 0x28 \<or> c = 0x29 \<or> c = 0x2D \<or> c = 0x22 \<or> c = 0x27"

text \<open>\<^verbatim>\<open>String.prototype.trim\<close>.\<close>

definition trim :: "jsstring \<Rightarrow> jsstring" where
  "trim s = rev (dropWhile is_space (rev (dropWhile is_space s)))"

text \<open>\<^verbatim>\<open>String.prototype.includes\<close>: the argument occurs as a contiguous run.\<close>

fun str_includes :: "jsstring \<Rightarrow> jsstring \<Rightarrow> bool" where
  "str_includes [] p \<longleftrightarrow> p = []"
| "str_includes (c # cs) p \<longleftrightarrow> prefix p (c # cs) \<or> str_includes cs p"

section \<open>The text sanitizer: \<^verbatim>\<open>VoiceReader.cleanText\<close>\<close>

text \<open>
  \<^verbatim>\<open>.replace(/<[^>]*>/g, '')\<close>. A match starts at a \<^verbatim>\<open><\<close> and runs to the first
  \<^verbatim>\<open>>\<close> after it; a \<^verbatim>\<open><\<close> with no \<^verbatim>\<open>>\<close> behind it matches nothing and stays.
\<close>

function strip_tags :: "jsstring \<Rightarrow> jsstring" where
  "strip_tags [] = []"
| "strip_tags (c # cs) =
     (if c = 0x3C \<and> 0x3E \<in> set cs
      then strip_tags (tl (dropWhile (\<lambda>x. x \<noteq> 0x3E) cs))
      else c # strip_tags cs)"
  by pat_completeness auto
termination
proof (relation "measure length")
  fix c :: jchar and cs :: jsstring
  have "length (tl (dropWhile (\<lambda>x. x \<noteq> 0x3E) cs)) \<le> length cs"
    using length_dropWhile_le [of "\<lambda>x. x \<noteq> 0x3E" cs] by simp
  then show "(tl (dropWhile (\<lambda>x. x \<noteq> 0x3E) cs), c # cs) \<in> measure length"
    by simp
qed simp_all

text \<open>
  \<^verbatim>\<open>.replace(/literal/g, rep)\<close> for a literal pattern: every occurrence, found from left
  to right, the search going on behind the occurrence just replaced.
\<close>

function replace_all :: "jsstring \<Rightarrow> jsstring \<Rightarrow> jsstring \<Rightarrow> jsstring" where
  "replace_all pat rep [] = []"
| "replace_all pat rep (c # cs) =
     (if pat \<noteq> [] \<and> prefix pat (c # cs)
      then rep @ replace_all pat rep (drop (length pat) (c # cs))
      else c # replace_all pat rep cs)"
  by pat_completeness auto
termination
  by (relation "measure (\<lambda>(pat, rep, s). length s)") (auto simp: neq_Nil_conv)

text \<open>\<^verbatim>\<open>.replace(/\s+/g, ' ')\<close>: each maximal run of white space becomes one space.\<close>

function collapse_ws :: "jsstring \<Rightarrow> jsstring" where
  "collapse_ws [] = []"
| "collapse_ws (c # cs) =
     (if is_space c then 0x20 # collapse_ws (dropWhile is_space cs)
      else c # collapse_ws cs)"
  by pat_completeness auto
termination
proof (relation "measure length")
  fix c :: jchar and cs :: jsstring
  show "(dropWhile is_space cs, c # cs) \<in> measure length"
    using length_dropWhile_le [of is_space cs] by simp
qed simp_all

text \<open>The character class \<^verbatim>\<open>[^\w\s\u0900-\u097F.,!?;:()\-""'']\<close> negated: what is kept.\<close>

definition keep_char :: "jchar \<Rightarrow> bool" where
  "keep_char c \<longleftrightarrow> is_word c \<or> is_space c \<or> is_devanagari c \<or> is_punct c"

definition cleanText :: "jsstring \<Rightarrow> jsstring" where
  "cleanText text =
     trim
       (filter keep_char
         (collapse_ws
           (replace_all (ascii ''&#39;'') [0x27]
             (replace_all (ascii ''&quot;'') [0x22]
               (replace_all (ascii ''&gt;'') [0x3E]
                 (replace_all (ascii ''&lt;'') [0x3C]
                   (replace_all (ascii ''&amp;'') [0x26]
                     (replace_all (ascii ''&nbsp;'') [0x20]
                       (strip_tags text)))))))))"

text \<open>\<^verbatim>\<open>isHindiText\<close>: \<^verbatim>\<open>/[\u0900-\u097F]/.test(text)\<close>.\<close>

definition isHindiText :: "jsstring \<Rightarrow> bool" where
  "isHindiText text \<longleftrightarrow> list_ex is_devanagari text"

section \<open>Numbers\<close>

text \<open>
  A JavaScript number is kept as the real number it denotes, or as one of the three values
  that are no real number. The sign of zero is not modelled (both zeros are falsy).
\<close>

datatype jsnum = NaN | PosInf | NegInf | Num real

text \<open>Truthiness of a number: \<^verbatim>\<open>0\<close> and \<^verbatim>\<open>NaN\<close> are falsy.\<close>

fun truthy :: "jsnum \<Rightarrow> bool" where
  "truthy NaN \<longleftrightarrow> False"
| "truthy PosInf \<longleftrightarrow> True"
| "truthy NegInf \<longleftrightarrow> True"
| "truthy (Num x) \<longleftrightarrow> x \<noteq> 0"

fun finite_num :: "jsnum \<Rightarrow> bool" where
  "finite_num (Num x) \<longleftrightarrow> True"
| "finite_num _ \<longleftrightarrow> False"

text \<open>
  \<^verbatim>\<open>a || b\<close> where \<^verbatim>\<open>a\<close> is a property that may be absent (\<^verbatim>\<open>undefined\<close>, here
  \<open>None\<close>) and \<^verbatim>\<open>b\<close> is a number.
\<close>

fun js_or :: "jsnum option \<Rightarrow> jsnum \<Rightarrow> jsnum" where
  "js_or None b = b"
| "js_or (Some a) b = (if truthy a then a else b)"

subsection \<open>\<^verbatim>\<open>parseFloat\<close>\<close>

definition is_digit :: "jchar \<Rightarrow> bool" where
  "is_digit c \<longleftrightarrow> 0x30 \<le> c \<and> c \<le> 0x39"

definition digits_value :: "jsstring \<Rightarrow> nat" where
  "digits_value ds = foldl (\<lambda>a c. 10 * a + (c - 0x30)) 0 ds"

text \<open>The exponent part behind the mantissa: \<^verbatim>\<open>e\<close> or \<^verbatim>\<open>E\<close>, a sign if any, and at
  least one digit; anything else is no exponent and is ignored.\<close>

definition exponent_part :: "jsstring \<Rightarrow> int" where
  "exponent_part s =
     (if s \<noteq> [] \<and> (hd s = 0x65 \<or> hd s = 0x45) then
        (let t = tl s;
             neg = (t \<noteq> [] \<and> hd t = 0x2D);
             t' = (if t \<noteq> [] \<and> (hd t = 0x2B \<or> hd t = 0x2D) then tl t else t);
             ds = takeWhile is_digit t'
         in if ds = [] then 0
            else if neg then - int (digits_value ds) else int (digits_value ds))
      else 0)"

definition scale10 :: "real \<Rightarrow> int \<Rightarrow> real" where
  "scale10 m e = (if 0 \<le> e then m * 10 ^ nat e else m / 10 ^ nat (- e))"

text \<open>
  The number value of a decimal literal, as far as the range of a double goes: from
  \<open>2 ^ 1024 - 2 ^ 970\<close> on the value rounds to an infinity, up to \<open>1 / 2 ^ 1075\<close> it
  rounds to zero. In between the value is kept as it is written: rounding to the nearest
  double inside the range is not modelled.
\<close>

definition to_double :: "real \<Rightarrow> jsnum" where
  "to_double x =
     (if 2 ^ 1024 - 2 ^ 970 \<le> x then PosInf
      else if x \<le> - (2 ^ 1024 - 2 ^ 970) then NegInf
      else if \<bar>x\<bar> \<le> 1 / 2 ^ 1075 then Num 0
      else Num x)"

text \<open>
  \<^verbatim>\<open>parseFloat\<close> skips leading white space and reads the longest prefix that is a
  decimal literal (a sign, then \<^verbatim>\<open>Infinity\<close> or digits with an optional fraction and
  exponent); with no such prefix the result is \<^verbatim>\<open>NaN\<close>.
\<close>

definition parseFloat :: "jsstring \<Rightarrow> jsnum" where
  "parseFloat input =
     (let s = dropWhile is_space input;
          neg = (s \<noteq> [] \<and> hd s = 0x2D);
          s1 = (if s \<noteq> [] \<and> (hd s = 0x2B \<or> hd s = 0x2D) then tl s else s)
      in if prefix (ascii ''Infinity'') s1 then (if neg then NegInf else PosInf)
         else
           (let ip = takeWhile is_digit s1;
                r1 = dropWhile is_digit s1;
                dot = (r1 \<noteq> [] \<and> hd r1 = 0x2E);
                fp = (if dot then takeWhile is_digit (tl r1) else []);
                r2 = (if dot then dropWhile is_digit (tl r1) else r1)
            in if ip = [] \<and> fp = [] then NaN
               else
                 (let m = scale10 (real (digits_value (ip @ fp)))
                            (exponent_part r2 - int (length fp))
                  in to_double (if neg then - m else m))))"

section \<open>Data of the voice reader\<close>

text \<open>A voice of the engine (\<^verbatim>\<open>SpeechSynthesisVoice\<close>), as far as the reader looks at it.\<close>

record voice =
  name :: jsstring
  lang :: jsstring

text \<open>\<^verbatim>\<open>this.settings\<close>.\<close>

record voice_settings =
  rate :: jsnum
  pitch :: jsnum
  volume :: jsnum

text \<open>The \<^verbatim>\<open>options\<close> argument of \<^verbatim>\<open>speak\<close>; an absent property is \<open>None\<close>.\<close>

record speak_options =
  opt_rate :: "jsnum option"
  opt_pitch :: "jsnum option"
  opt_volume :: "jsnum option"

text \<open>
  A \<^verbatim>\<open>SpeechSynthesisUtterance\<close>. Its five event handlers are the functions
  \<open>onstart\<close>, \<open>onend\<close>, \<open>onerror\<close>, \<open>onpause\<close> and \<open>onresume\<close> below: the source
  attaches the same closures to every utterance.
\<close>

record speech_utterance =
  u_text :: jsstring
  u_voice :: "voice option"
  u_rate :: jsnum
  u_pitch :: jsnum
  u_volume :: jsnum
  u_lang :: jsstring

text \<open>\<^verbatim>\<open>new SpeechSynthesisUtterance(text)\<close>: the attributes start at their defaults.\<close>

definition new_utterance :: "jsstring \<Rightarrow> speech_utterance" where
  "new_utterance t =
     \<lparr>u_text = t, u_voice = None, u_rate = Num 1, u_pitch = Num 1, u_volume = Num 1,
      u_lang = []\<rparr>"

subsection \<open>The speech engine\<close>

text \<open>
  The engine is the browser's \<^verbatim>\<open>window.speechSynthesis\<close>. The reader reads its two
  attributes \<^verbatim>\<open>speaking\<close> and \<^verbatim>\<open>paused\<close> and calls \<^verbatim>\<open>speak\<close>, \<^verbatim>\<open>pause\<close>,
  \<^verbatim>\<open>resume\<close> and \<^verbatim>\<open>cancel\<close>. The engine state holds these two attributes, the queue of
  utterances handed over and neither finished nor cancelled, and the operations carried
  out so far, oldest first. \<open>speak_throws\<close> says whether \<^verbatim>\<open>synth.speak\<close> raises,
  the case the source catches.

  \<^verbatim>\<open>speak\<close> appends to the queue; \<^verbatim>\<open>cancel\<close> empties the queue and ends speaking
  without touching the paused state; \<^verbatim>\<open>pause\<close> and \<^verbatim>\<open>resume\<close> set and clear the
  paused state. What \<^verbatim>\<open>speaking\<close> reports between the submission of an utterance and
  its beginning is not decided by the source and differs between engines, so it is a
  parameter of the engine: with \<open>reports_queued\<close> the engine reports \<^verbatim>\<open>speaking\<close> as
  soon as an utterance is queued; without it, only once an utterance has begun, as the
  Web Speech API words it (an utterance that waits then shows in the attribute
  \<^verbatim>\<open>pending\<close>, which the reader never reads). The events of the engine reach the
  reader through the handlers further down; when they arrive is up to the engine.
\<close>

datatype engine_call = CallSpeak speech_utterance | CallPause | CallResume | CallCancel

record engine =
  speaking :: bool
  paused :: bool
  queue :: "speech_utterance list"
  calls :: "engine_call list"
  speak_throws :: bool
  reports_queued :: bool

definition synth_speak :: "speech_utterance \<Rightarrow> engine \<Rightarrow> engine" where
  "synth_speak u e =
     e\<lparr>speaking := speaking e \<or> reports_queued e, queue := queue e @ [u],
       calls := calls e @ [CallSpeak u]\<rparr>"

definition synth_pause :: "engine \<Rightarrow> engine" where
  "synth_pause e = e\<lparr>paused := True, calls := calls e @ [CallPause]\<rparr>"

definition synth_resume :: "engine \<Rightarrow> engine" where
  "synth_resume e = e\<lparr>paused := False, calls := calls e @ [CallResume]\<rparr>"

definition synth_cancel :: "engine \<Rightarrow> engine" where
  "synth_cancel e = e\<lparr>speaking := False, queue := [], calls := calls e @ [CallCancel]\<rparr>"

subsection \<open>The reader\<close>

text \<open>
  The argument of \<^verbatim>\<open>updateUI\<close>, which shows and hides the play, pause and stop buttons
  of the page (and does nothing when the page has no play button);
  the reader's \<open>ui\<close> field lists the calls of \<^verbatim>\<open>updateUI\<close>, oldest first, and
  \<open>notifications\<close> those of \<^verbatim>\<open>showNotification\<close> (message and type). Console output
  is left out.
\<close>

datatype ui_state = UIPlaying | UIPaused | UIStopped

record reader =
  synth :: "engine option"
  utterance :: "speech_utterance option"
  isReading :: bool
  isPaused :: bool
  currentText :: jsstring
  voices :: "voice list"
  selectedVoice :: "voice option"
  settings :: voice_settings
  ui :: "ui_state list"
  notifications :: "(jsstring \<times> jsstring) list"

definition updateUI :: "ui_state \<Rightarrow> reader \<Rightarrow> reader" where
  "updateUI st r = r\<lparr>ui := ui r @ [st]\<rparr>"

definition showNotification :: "jsstring \<Rightarrow> jsstring \<Rightarrow> reader \<Rightarrow> reader" where
  "showNotification msg ty r = r\<lparr>notifications := notifications r @ [(msg, ty)]\<rparr>"

text \<open>A method either returns or raises.\<close>

datatype js_error = TypeError

datatype 'a outcome = Returned 'a | Threw js_error

subsection \<open>The messages of the source, as code units\<close>

definition msg_no_text :: jsstring where
  "msg_no_text =
    [0x915, 0x94B, 0x908, 0x20, 0x91F, 0x947, 0x915, 0x94D, 0x938, 0x94D, 0x91F, 0x20,
     0x928, 0x939, 0x940, 0x902, 0x20, 0x92E, 0x93F, 0x932, 0x93E, 0x20, 0x92A, 0x922,
     0x93C, 0x928, 0x947, 0x20, 0x915, 0x947, 0x20, 0x932, 0x93F, 0x90F, 0x964]"

definition msg_unsupported :: jsstring where
  "msg_unsupported =
    [0x906, 0x92A, 0x915, 0x93E, 0x20, 0x92C, 0x94D, 0x930, 0x93E, 0x909, 0x91C, 0x93C,
     0x930, 0x20, 0x935, 0x949, 0x907, 0x938, 0x20, 0x938, 0x92A, 0x94B, 0x930, 0x94D,
     0x91F, 0x20, 0x928, 0x939, 0x940, 0x902, 0x20, 0x915, 0x930, 0x924, 0x93E, 0x964]"

definition msg_finished :: jsstring where
  "msg_finished =
    [0x92A, 0x922, 0x93C, 0x928, 0x93E, 0x20, 0x938, 0x92E, 0x93E, 0x92A, 0x94D, 0x924,
     0x20, 0x939, 0x941, 0x906, 0x964, 0x20, 0x2705]"

definition msg_generic :: jsstring where
  "msg_generic =
    [0x935, 0x949, 0x907, 0x938, 0x20, 0x92E, 0x947, 0x902, 0x20, 0x938, 0x92E, 0x938,
     0x94D, 0x92F, 0x93E, 0x20, 0x939, 0x941, 0x908, 0x964]"

definition msg_network :: jsstring where
  "msg_network =
    [0x928, 0x947, 0x91F, 0x935, 0x930, 0x94D, 0x915, 0x20, 0x915, 0x940, 0x20, 0x938,
     0x92E, 0x938, 0x94D, 0x92F, 0x93E, 0x964, 0x20, 0x915, 0x928, 0x947, 0x915, 0x94D,
     0x936, 0x928, 0x20, 0x91A, 0x947, 0x915, 0x20, 0x915, 0x930, 0x947, 0x902, 0x964]"

definition msg_not_allowed :: jsstring where
  "msg_not_allowed =
    [0x92C, 0x94D, 0x930, 0x93E, 0x909, 0x91C, 0x93C, 0x930, 0x20, 0x92E, 0x947, 0x902,
     0x20, 0x935, 0x949, 0x907, 0x938, 0x20, 0x915, 0x940, 0x20, 0x905, 0x928, 0x941,
     0x92E, 0x924, 0x93F, 0x20, 0x928, 0x939, 0x940, 0x902, 0x20, 0x939, 0x948, 0x964]"

definition msg_language :: jsstring where
  "msg_language =
    [0x92F, 0x939, 0x20, 0x92D, 0x93E, 0x937, 0x93E, 0x20, 0x938, 0x92A, 0x94B, 0x930,
     0x94D, 0x91F, 0x20, 0x928, 0x939, 0x940, 0x902, 0x20, 0x939, 0x948, 0x964]"

definition msg_retry :: jsstring where
  "msg_retry =
    [0x20, 0x915, 0x943, 0x92A, 0x92F, 0x93E, 0x20, 0x92B, 0x93F, 0x930, 0x20, 0x938,
     0x947, 0x20, 0x915, 0x94B, 0x936, 0x93F, 0x936, 0x20, 0x915, 0x930, 0x947, 0x902,
     0x964]"

definition msg_unavailable :: jsstring where
  "msg_unavailable =
    [0x935, 0x949, 0x907, 0x938, 0x20, 0x938, 0x92A, 0x94B, 0x930, 0x94D, 0x91F, 0x20,
     0x909, 0x92A, 0x932, 0x92C, 0x94D, 0x927, 0x20, 0x928, 0x939, 0x940, 0x902, 0x20,
     0x939, 0x948, 0x964]"

section \<open>The playback controller\<close>

subsection \<open>\<^verbatim>\<open>stop\<close>, \<^verbatim>\<open>pause\<close>, \<^verbatim>\<open>resume\<close>\<close>

text \<open>With no engine object, reading \<^verbatim>\<open>this.synth.speaking\<close> raises a TypeError.\<close>

definition stop :: "reader \<Rightarrow> bool outcome \<times> reader" where
  "stop r =
     (case synth r of
        None \<Rightarrow> (Threw TypeError, r)
      | Some e \<Rightarrow>
          if speaking e \<or> paused e
          then (Returned True,
                updateUI UIStopped
                  (r\<lparr>synth := Some (synth_cancel e), isReading := False, isPaused := False\<rparr>))
          else (Returned False, r))"

definition pause :: "reader \<Rightarrow> bool outcome \<times> reader" where
  "pause r =
     (case synth r of
        None \<Rightarrow> (Threw TypeError, r)
      | Some e \<Rightarrow>
          if speaking e \<and> \<not> paused e
          then (Returned True,
                updateUI UIPaused (r\<lparr>synth := Some (synth_pause e), isPaused := True\<rparr>))
          else (Returned False, r))"

definition resume :: "reader \<Rightarrow> bool outcome \<times> reader" where
  "resume r =
     (case synth r of
        None \<Rightarrow> (Threw TypeError, r)
      | Some e \<Rightarrow>
          if paused e
          then (Returned True,
                updateUI UIPlaying (r\<lparr>synth := Some (synth_resume e), isPaused := False\<rparr>))
          else (Returned False, r))"

subsection \<open>The event handlers that \<^verbatim>\<open>speak\<close> attaches to the utterance\<close>

definition onstart :: "reader \<Rightarrow> reader" where
  "onstart r = updateUI UIPlaying (r\<lparr>isReading := True, isPaused := False\<rparr>)"

definition onend :: "reader \<Rightarrow> reader" where
  "onend r =
     showNotification msg_finished (ascii ''success'')
       (updateUI UIStopped (r\<lparr>isReading := False, isPaused := False\<rparr>))"

text \<open>The argument is \<^verbatim>\<open>event.error\<close>.\<close>

definition error_message :: "jsstring \<Rightarrow> jsstring" where
  "error_message err =
     (if err = ascii ''network'' then msg_network
      else if err = ascii ''not-allowed'' then msg_not_allowed
      else if err = ascii ''language-not-supported'' then msg_language
      else msg_generic)"

definition onerror :: "jsstring \<Rightarrow> reader \<Rightarrow> reader" where
  "onerror err r =
     showNotification (error_message err @ msg_retry) (ascii ''error'')
       (updateUI UIStopped (r\<lparr>isReading := False, isPaused := False\<rparr>))"

definition onpause :: "reader \<Rightarrow> reader" where
  "onpause r = updateUI UIPaused (r\<lparr>isPaused := True\<rparr>)"

definition onresume :: "reader \<Rightarrow> reader" where
  "onresume r = updateUI UIPlaying (r\<lparr>isPaused := False\<rparr>)"

subsection \<open>\<^verbatim>\<open>speak\<close>\<close>

text \<open>
  \<^verbatim>\<open>rate\<close>, \<^verbatim>\<open>pitch\<close> and \<^verbatim>\<open>volume\<close> of an utterance are \<^verbatim>\<open>float\<close> attributes:
  assigning \<^verbatim>\<open>NaN\<close> or an infinity raises a TypeError, which \<^verbatim>\<open>speak\<close> does not
  catch. The three assignments run in the order of the source, so a raise leaves the
  utterance as the assignments before it made it.
\<close>

definition submit :: "speech_utterance \<Rightarrow> reader \<Rightarrow> bool outcome \<times> reader" where
  "submit u r =
     (case synth r of
        None \<Rightarrow> (Threw TypeError, r)
      | Some e \<Rightarrow>
          if speak_throws e
          then (Returned False, showNotification msg_unavailable (ascii ''error'') r)
          else (Returned True, r\<lparr>synth := Some (synth_speak u e)\<rparr>))"

definition speak :: "jsstring \<Rightarrow> speak_options \<Rightarrow> reader \<Rightarrow> bool outcome \<times> reader" where
  "speak text opts r =
     (if text = [] \<or> trim text = []
      then (Returned False, showNotification msg_no_text (ascii ''warning'') r)
      else if synth r = None
      then (Returned False, showNotification msg_unsupported (ascii ''error'') r)
      else
        (let r1 = snd (stop r);
             cleanedText = cleanText text;
             r2 = r1\<lparr>currentText := cleanedText\<rparr>;
             u1 = (new_utterance cleanedText)\<lparr>u_voice := selectedVoice r2\<rparr>;
             rate' = js_or (opt_rate opts) (rate (settings r2));
             pitch' = js_or (opt_pitch opts) (pitch (settings r2));
             volume' = js_or (opt_volume opts) (volume (settings r2))
         in if \<not> finite_num rate' then (Threw TypeError, r2\<lparr>utterance := Some u1\<rparr>)
            else
              (let u2 = u1\<lparr>u_rate := rate'\<rparr>
               in if \<not> finite_num pitch' then (Threw TypeError, r2\<lparr>utterance := Some u2\<rparr>)
                  else
                    (let u3 = u2\<lparr>u_pitch := pitch'\<rparr>
                     in if \<not> finite_num volume'
                        then (Threw TypeError, r2\<lparr>utterance := Some u3\<rparr>)
                        else
                          (let u4 = u3\<lparr>u_volume := volume'\<rparr>;
                               u5 = u4\<lparr>u_lang :=
                                      (case selectedVoice r2 of
                                         Some v \<Rightarrow> lang v
                                       | None \<Rightarrow>
                                           if isHindiText cleanedText then ascii ''hi-IN''
                                           else ascii ''en-US'')\<rparr>
                           in submit u5 (r2\<lparr>utterance := Some u5\<rparr>))))))"

text \<open>The default \<^verbatim>\<open>options = {}\<close> of \<^verbatim>\<open>speak(text)\<close>.\<close>

definition no_options :: speak_options where
  "no_options = \<lparr>opt_rate = None, opt_pitch = None, opt_volume = None\<rparr>"

section \<open>The functions the page calls to start reading\<close>























section \<open>The voice catalog: \<^verbatim>\<open>initializeVoices\<close>\<close>

definition preferredVoices :: "jsstring list" where
  "preferredVoices =
     [ascii ''Microsoft Heera - Hindi (India)'',
      ascii ''Google '' @ [0x939, 0x93F, 0x928, 0x94D, 0x926, 0x940],
      ascii ''Hindi (India)'',
      ascii ''hi-IN'',
      ascii ''Microsoft Zira - English (United States)'',
      ascii ''Google US English'',
      ascii ''Microsoft David - English (United States)'',
      ascii ''English (United States)'',
      ascii ''en-US'']"

text \<open>The predicate handed to \<^verbatim>\<open>this.voices.find\<close>.\<close>

definition matches :: "jsstring \<Rightarrow> voice \<Rightarrow> bool" where
  "matches preferred v \<longleftrightarrow>
     str_includes (name v) preferred \<or> name v = preferred \<or>
     str_includes (lang v) preferred \<or> lang v = preferred"

text \<open>The \<^verbatim>\<open>for (const preferred of preferredVoices)\<close> loop, left at the first entry for
  which \<^verbatim>\<open>find\<close> returns a voice.\<close>

fun find_preferred :: "jsstring list \<Rightarrow> voice list \<Rightarrow> voice option" where
  "find_preferred [] vs = None"
| "find_preferred (p # ps) vs =
     (case List.find (matches p) vs of
        Some v \<Rightarrow> Some v
      | None \<Rightarrow> find_preferred ps vs)"

text \<open>
  The first argument is what \<^verbatim>\<open>this.synth.getVoices()\<close> returned. The second is the
  item \<^verbatim>\<open>selectedVoiceIndex\<close> of the local storage: \<open>None\<close> when there is none, and
  otherwise the index whose decimal text \<^verbatim>\<open>applyVoiceSettings\<close> stored there (the value
  of an option of the voice list). Such a text is never empty, hence truthy, and
  \<^verbatim>\<open>this.voices[savedVoiceIndex]\<close> is the voice at that index, or \<^verbatim>\<open>undefined\<close> behind
  the end of the array.
\<close>

definition initializeVoices :: "voice list \<Rightarrow> nat option \<Rightarrow> reader \<Rightarrow> reader" where
  "initializeVoices catalog savedVoiceIndex r =
     (let r1 = r\<lparr>voices := catalog\<rparr>
      in if length catalog = 0 then r1
         else
           (let r2 = (if selectedVoice r1 = None
                      then (case find_preferred preferredVoices catalog of
                              Some v \<Rightarrow> r1\<lparr>selectedVoice := Some v\<rparr>
                            | None \<Rightarrow> r1)
                      else r1);
                r3 = (if selectedVoice r2 = None \<and> length catalog > 0
                      then r2\<lparr>selectedVoice := Some (catalog ! 0)\<rparr>
                      else r2)
            in case savedVoiceIndex of
                 None \<Rightarrow> r3
               | Some i \<Rightarrow>
                   if i < length catalog then r3\<lparr>selectedVoice := Some (catalog ! i)\<rparr>
                   else r3))"

section \<open>The preference store: \<^verbatim>\<open>loadSavedSettings\<close>\<close>

text \<open>\<^verbatim>\<open>localStorage\<close>: \<^verbatim>\<open>getItem\<close> gives the stored string, or \<^verbatim>\<open>null\<close> (here
  \<open>None\<close>) for a key that is not there.\<close>

type_synonym storage = "jsstring \<rightharpoonup> jsstring"

text \<open>\<^verbatim>\<open>if (saved) field = parseFloat(saved)\<close>: a string is truthy unless it is empty.\<close>

definition load_field :: "jsstring option \<Rightarrow> jsnum \<Rightarrow> jsnum" where
  "load_field saved old =
     (case saved of
        None \<Rightarrow> old
      | Some s \<Rightarrow> if s \<noteq> [] then parseFloat s else old)"

definition loadSavedSettings :: "storage \<Rightarrow> reader \<Rightarrow> reader" where
  "loadSavedSettings store r =
     (let savedRate = store (ascii ''voiceRate'');
          savedPitch = store (ascii ''voicePitch'');
          savedVolume = store (ascii ''voiceVolume'')
      in r\<lparr>settings :=
             \<lparr>rate = load_field savedRate (rate (settings r)),
              pitch = load_field savedPitch (pitch (settings r)),
              volume = load_field savedVolume (volume (settings r))\<rparr>\<rparr>)"

text \<open>The auto-read flag, as \<^verbatim>\<open>loadAutoReadSetting\<close> and \<^verbatim>\<open>autoStartReading\<close> read it.\<close>

definition autoRead :: "storage \<Rightarrow> bool" where
  "autoRead store \<longleftrightarrow> store (ascii ''autoReadSummary'') = Some (ascii ''true'')"

text \<open>
  The fields as the constructor of \<^verbatim>\<open>VoiceReader\<close> sets them, before it calls
  \<^verbatim>\<open>loadSavedSettings\<close> and \<^verbatim>\<open>initializeVoices\<close>, over a given engine.
\<close>

definition fresh_reader :: "engine \<Rightarrow> reader" where
  "fresh_reader e =
     \<lparr>synth = Some e, utterance = None, isReading = False, isPaused = False,
      currentText = [], voices = [], selectedVoice = None,
      settings = \<lparr>rate = Num (8 / 10), pitch = Num 1, volume = Num (9 / 10)\<rparr>,
      ui = [], notifications = []\<rparr>"

text \<open>An engine at rest, nothing queued and nothing said yet, of the kind that reports
  \<^verbatim>\<open>speaking\<close> only once an utterance has begun; and one of the other kind.\<close>

definition idle_engine :: engine where
  "idle_engine =
     \<lparr>speaking = False, paused = False, queue = [], calls = [], speak_throws = False,
      reports_queued = False\<rparr>"

definition eager_idle_engine :: engine where
  "eager_idle_engine = idle_engine\<lparr>reports_queued := True\<rparr>"

section \<open>Derived notions and sample inputs\<close>

text \<open>The utterance \<^verbatim>\<open>speak\<close> has configured once its three assignments went through.\<close>

definition built :: "jsstring \<Rightarrow> speak_options \<Rightarrow> reader \<Rightarrow> speech_utterance" where
  "built text opts r =
     \<lparr>u_text = cleanText text, u_voice = selectedVoice r,
      u_rate = js_or (opt_rate opts) (rate (settings r)),
      u_pitch = js_or (opt_pitch opts) (pitch (settings r)),
      u_volume = js_or (opt_volume opts) (volume (settings r)),
      u_lang =
        (case selectedVoice r of
           Some v \<Rightarrow> lang v
         | None \<Rightarrow> if isHindiText (cleanText text) then ascii ''hi-IN'' else ascii ''en-US'')\<rparr>"

text \<open>The entries of \<open>preferredVoices\<close> under the comment \<^verbatim>\<open>// Hindi voices\<close>.\<close>

definition hindiEntries :: "jsstring list" where
  "hindiEntries = take 4 preferredVoices"

text \<open>\<^verbatim>\<open>{rate: 0, volume: NaN}\<close>.\<close>

definition falsy_options :: speak_options where
  "falsy_options = \<lparr>opt_rate = Some (Num 0), opt_pitch = None, opt_volume = Some NaN\<rparr>"

text \<open>The utterance a fresh reader with no voice builds for an English text.\<close>

definition plain_utterance :: "jsstring \<Rightarrow> speech_utterance" where
  "plain_utterance t =
     \<lparr>u_text = t, u_voice = None, u_rate = Num (8 / 10), u_pitch = Num 1,
      u_volume = Num (9 / 10), u_lang = ascii ''en-US''\<rparr>"

text \<open>An engine in the middle of an utterance.\<close>

definition busy_engine :: engine where
  "busy_engine =
     \<lparr>speaking = True, paused = False, queue = [plain_utterance (ascii ''A'')],
      calls = [CallSpeak (plain_utterance (ascii ''A''))], speak_throws = False,
      reports_queued = False\<rparr>"

definition sample_store :: storage where
  "sample_store = [ascii ''voiceRate'' \<mapsto> ascii ''1.5'', ascii ''voiceVolume'' \<mapsto> []]"

definition two_voices :: "voice list" where
  "two_voices =
     [\<lparr>name = ascii ''Zira'', lang = ascii ''en-US''\<rparr>,
      \<lparr>name = ascii ''Lekha'', lang = ascii ''hi-IN''\<rparr>]"

definition three_voices :: "voice list" where
  "three_voices = two_voices @ [\<lparr>name = ascii ''Daniel'', lang = ascii ''en-GB''\<rparr>]"

definition misnamed_catalog :: "voice list" where
  "misnamed_catalog =
     [\<lparr>name = ascii ''Hindi (India)'', lang = ascii ''en-US''\<rparr>,
      \<lparr>name = ascii ''Lekha'', lang = ascii ''hi-IN''\<rparr>]"

section \<open>Properties of the sanitizer\<close>

lemmas char_class_defs =
  keep_char_def is_word_def is_space_def is_devanagari_def is_punct_def

lemmas sanitize_defs = cleanText_def ascii_def trim_def char_class_defs isHindiText_def

lemma collapse_ws_spaces:
  "c \<in> set (collapse_ws s) \<Longrightarrow> is_space c \<Longrightarrow> c = 0x20"
  by (induction s rule: collapse_ws.induct) (auto split: if_splits)

lemma set_trim: "set (trim s) \<subseteq> set s"
proof -
  have "set (trim s) = set (dropWhile is_space (rev (dropWhile is_space s)))"
    by (simp add: trim_def)
  also have "\<dots> \<subseteq> set (rev (dropWhile is_space s))"
    by (rule set_dropWhileD [THEN subsetI])
  also have "\<dots> \<subseteq> set s"
    using set_dropWhileD [of _ is_space s] by auto
  finally show ?thesis .
qed

lemma trim_Nil [simp]: "trim [] = []"
  by (simp add: trim_def)

lemma kept_not_markup: "keep_char c \<Longrightarrow> c \<noteq> 0x3C \<and> c \<noteq> 0x3E \<and> c \<noteq> 0x26"
  by (auto simp: char_class_defs)


text \<open>
  Claim C4. Whatever the input string, every code unit of the output of \<open>cleanText\<close> is
  a word character, a Devanagari code unit, one of the punctuation marks
  \<^verbatim>\<open>.,!?;:()-"'\<close> or the space U+0020, and none is a markup delimiter
  (\<^verbatim>\<open><\<close>, \<^verbatim>\<open>>\<close>, \<^verbatim>\<open>&\<close>). \<open>cleanText\<close> is a total function on strings: it has a
  result for every string and no raising branch.
\<close>

theorem cleanText_allowlist:
  "\<forall>c \<in> set (cleanText text).
     (is_word c \<or> is_devanagari c \<or> is_punct c \<or> c = 0x20) \<and>
     c \<noteq> 0x3C \<and> c \<noteq> 0x3E \<and> c \<noteq> 0x26"
proof
  fix c assume "c \<in> set (cleanText text)"
  then obtain s where c: "c \<in> set (filter keep_char (collapse_ws s))"
    unfolding cleanText_def using set_trim by blast
  then have k: "keep_char c" and m: "c \<in> set (collapse_ws s)" by simp_all
  from k m collapse_ws_spaces [OF m]
  have "is_word c \<or> is_devanagari c \<or> is_punct c \<or> c = 0x20"
    by (auto simp: keep_char_def)
  with kept_not_markup [OF k]
  show "(is_word c \<or> is_devanagari c \<or> is_punct c \<or> c = 0x20) \<and>
     c \<noteq> 0x3C \<and> c \<noteq> 0x3E \<and> c \<noteq> 0x26" by blast
qed

text \<open>Claim C4 at \<^verbatim>\<open><b>Hi</b> &lt;3 \<close>, whose output \<^verbatim>\<open>Hi 3\<close> holds the letter H.\<close>

theorem cleanText_allowlist_witness:
  "0x48 \<in> set (cleanText (ascii ''<b>Hi</b> &lt;3 '')) \<and>
   (is_word 0x48 \<or> is_devanagari 0x48 \<or> is_punct 0x48 \<or> (0x48::nat) = 0x20) \<and>
   (0x48::nat) \<noteq> 0x3C \<and> (0x48::nat) \<noteq> 0x3E \<and> (0x48::nat) \<noteq> 0x26"
proof -
  have "cleanText (ascii ''<b>Hi</b> &lt;3 '') = ascii ''Hi 3''"
    by (simp add: sanitize_defs)
  then have m: "0x48 \<in> set (cleanText (ascii ''<b>Hi</b> &lt;3 ''))"
    by (simp add: ascii_def)
  from cleanText_allowlist [of "ascii ''<b>Hi</b> &lt;3 ''"] m show ?thesis
    by blast
qed

section \<open>Properties of the playback controller\<close>

lemmas engine_defs = synth_speak_def synth_pause_def synth_resume_def synth_cancel_def

lemmas log_defs = updateUI_def showNotification_def

lemmas sample_defs = fresh_reader_def idle_engine_def eager_idle_engine_def busy_engine_def
  no_options_def
  falsy_options_def plain_utterance_def

lemmas speak_defs = speak_def Let_def stop_def submit_def new_utterance_def

subsection \<open>\<^verbatim>\<open>pause\<close>, \<^verbatim>\<open>resume\<close> and \<^verbatim>\<open>stop\<close> off their preconditions\<close>

text \<open>
  Claim C5. With an engine whose reported state does not meet the precondition of the
  method, \<open>pause\<close>, \<open>resume\<close> and \<open>stop\<close> return \<^verbatim>\<open>false\<close> without raising and
  leave the whole reader as it was: no field of the controller changes, and the engine,
  with the list of operations carried out on it, is the same. In particular \<open>pause\<close> on
  an engine that is not speaking, and \<open>resume\<close> on an engine that speaks and is not
  paused.
\<close>

theorem precondition_false_noop:
  "synth r = Some e \<Longrightarrow>
     (\<not> (speaking e \<and> \<not> paused e) \<longrightarrow> pause r = (Returned False, r)) \<and>
     (\<not> paused e \<longrightarrow> resume r = (Returned False, r)) \<and>
     (\<not> (speaking e \<or> paused e) \<longrightarrow> stop r = (Returned False, r))"
  by (simp add: pause_def resume_def stop_def)

text \<open>Claim C5 on an idle reader (\<open>pause\<close>, \<open>stop\<close>) and on one that speaks (\<open>resume\<close>).\<close>

theorem precondition_false_noop_witness:
  "pause (fresh_reader idle_engine) = (Returned False, fresh_reader idle_engine) \<and>
   stop (fresh_reader idle_engine) = (Returned False, fresh_reader idle_engine) \<and>
   resume (fresh_reader busy_engine) = (Returned False, fresh_reader busy_engine)"
proof -
  have a: "synth (fresh_reader idle_engine) = Some idle_engine"
    by (simp add: fresh_reader_def)
  have b: "synth (fresh_reader busy_engine) = Some busy_engine"
    by (simp add: fresh_reader_def)
  have i: "\<not> speaking idle_engine" "\<not> paused idle_engine" "\<not> paused busy_engine"
    by (simp_all add: idle_engine_def busy_engine_def)
  from precondition_false_noop [OF a] precondition_false_noop [OF b] i
  show ?thesis by simp
qed

subsection \<open>When the interface learns of a pause\<close>

text \<open>
  Claim C2, refuted as stated: on a reader whose engine speaks, the call of \<open>pause\<close>
  itself sets \<open>isPaused\<close> and calls \<^verbatim>\<open>updateUI('paused')\<close>, before any event of the
  engine has been handled.
\<close>

theorem pause_updates_ui_at_call:
  "ui (fresh_reader busy_engine) = [] \<and>
   isPaused (fresh_reader busy_engine) = False \<and>
   ui (snd (pause (fresh_reader busy_engine))) = [UIPaused] \<and>
   isPaused (snd (pause (fresh_reader busy_engine))) = True"
  by (simp add: pause_def sample_defs engine_defs log_defs)

text \<open>
  Claim C2 as amended. When its precondition holds, \<open>pause\<close> calls the engine's
  \<^verbatim>\<open>pause\<close> and at once sets \<open>isPaused\<close> and notifies the interface of
  \<^verbatim>\<open>paused\<close>; \<open>resume\<close> calls the engine's \<^verbatim>\<open>resume\<close> and at once clears
  \<open>isPaused\<close> and notifies the interface of \<^verbatim>\<open>playing\<close>. The handlers of the
  engine's pause and resume events make the same update of \<open>isPaused\<close> and the same
  notification again when the event arrives.
\<close>

theorem pause_resume_update_at_call_and_callback:
  "synth r = Some e \<Longrightarrow>
     (speaking e \<and> \<not> paused e \<longrightarrow>
        pause r = (Returned True,
          r\<lparr>synth := Some (synth_pause e), isPaused := True, ui := ui r @ [UIPaused]\<rparr>)) \<and>
     (paused e \<longrightarrow>
        resume r = (Returned True,
          r\<lparr>synth := Some (synth_resume e), isPaused := False, ui := ui r @ [UIPlaying]\<rparr>)) \<and>
     onpause r = r\<lparr>isPaused := True, ui := ui r @ [UIPaused]\<rparr> \<and>
     onresume r = r\<lparr>isPaused := False, ui := ui r @ [UIPlaying]\<rparr>"
  by (simp add: pause_def resume_def onpause_def onresume_def log_defs)

text \<open>Claim C2 as amended, on a reader whose engine speaks and on one whose engine is
  paused.\<close>

theorem pause_resume_update_at_call_and_callback_witness:
  "pause (fresh_reader busy_engine) =
     (Returned True,
      (fresh_reader busy_engine)
        \<lparr>synth := Some (synth_pause busy_engine), isPaused := True, ui := [UIPaused]\<rparr>) \<and>
   resume (fresh_reader (synth_pause busy_engine)) =
     (Returned True,
      (fresh_reader (synth_pause busy_engine))
        \<lparr>synth := Some (synth_resume (synth_pause busy_engine)), isPaused := False,
         ui := [UIPlaying]\<rparr>)"
proof -
  have a: "synth (fresh_reader busy_engine) = Some busy_engine"
    "synth (fresh_reader (synth_pause busy_engine)) = Some (synth_pause busy_engine)"
    "ui (fresh_reader busy_engine) = []" "ui (fresh_reader (synth_pause busy_engine)) = []"
    by (simp_all add: fresh_reader_def)
  have i: "speaking busy_engine" "\<not> paused busy_engine" "paused (synth_pause busy_engine)"
    by (simp_all add: busy_engine_def synth_pause_def)
  from pause_resume_update_at_call_and_callback [OF a(1)]
    pause_resume_update_at_call_and_callback [OF a(2)] i a(3,4)
  show ?thesis by simp
qed

subsection \<open>The error handler\<close>

text \<open>
  Claim C7. In every state of the reader, and so while it speaks, the handler of an
  engine error whose kind is \<^verbatim>\<open>network\<close> clears \<open>isReading\<close> and \<open>isPaused\<close>,
  notifies the interface of \<^verbatim>\<open>stopped\<close>, and shows exactly one notification, of type
  \<^verbatim>\<open>error\<close>: the network message followed by the retry sentence, which differs from
  the fallback message followed by the same sentence. The engine is left alone.
\<close>

theorem onerror_network:
  "isReading (onerror (ascii ''network'') r) = False \<and>
   isPaused (onerror (ascii ''network'') r) = False \<and>
   ui (onerror (ascii ''network'') r) = ui r @ [UIStopped] \<and>
   notifications (onerror (ascii ''network'') r) =
     notifications r @ [(msg_network @ msg_retry, ascii ''error'')] \<and>
   msg_network @ msg_retry \<noteq> msg_generic @ msg_retry \<and>
   synth (onerror (ascii ''network'') r) = synth r"
  by (simp add: onerror_def error_message_def log_defs msg_network_def msg_generic_def)

text \<open>Claim C7 on a reader in the middle of an utterance.\<close>

theorem onerror_network_witness:
  "isReading (onstart (fresh_reader busy_engine)) = True \<and>
   isReading (onerror (ascii ''network'') (onstart (fresh_reader busy_engine))) = False \<and>
   notifications (onerror (ascii ''network'') (onstart (fresh_reader busy_engine))) =
     [(msg_network @ msg_retry, ascii ''error'')]"
proof -
  have "notifications (onstart (fresh_reader busy_engine)) = []"
    "isReading (onstart (fresh_reader busy_engine)) = True"
    by (simp_all add: onstart_def fresh_reader_def log_defs)
  with onerror_network [of "onstart (fresh_reader busy_engine)"] show ?thesis
    by simp
qed

subsection \<open>\<^verbatim>\<open>speak\<close>\<close>

lemma stop_keeps:
  "selectedVoice (snd (stop r)) = selectedVoice r"
  "settings (snd (stop r)) = settings r"
  by (auto simp: stop_def log_defs split: option.splits)

text \<open>Past its two guards and with assignable numbers, \<open>speak\<close> stops what is
  playing, stores the utterance it built and hands it to the engine.\<close>

lemma speak_configured:
  assumes "trim text \<noteq> []" "synth r = Some e"
    and "finite_num (js_or (opt_rate opts) (rate (settings r)))"
    and "finite_num (js_or (opt_pitch opts) (pitch (settings r)))"
    and "finite_num (js_or (opt_volume opts) (volume (settings r)))"
  shows "speak text opts r =
     submit (built text opts r)
       ((snd (stop r))\<lparr>currentText := cleanText text, utterance := Some (built text opts r)\<rparr>)"
proof -
  from assms(1) have "text \<noteq> []" by auto
  with assms show ?thesis
    by (simp add: speak_def Let_def stop_keeps built_def new_utterance_def)
qed


text \<open>Handed a markup-only text directly, \<open>speak\<close> itself lets it pass, since its guard
  looks at the raw text; no caller in the source hands it such a text (see below).\<close>

lemma speak_markup_only_submits:
  "cleanText (ascii ''<b></b>'') = [] \<and>
   speak (ascii ''<b></b>'') no_options (fresh_reader idle_engine) =
     (Returned True,
      (fresh_reader (idle_engine\<lparr>queue := [plain_utterance []],
                                calls := [CallSpeak (plain_utterance [])]\<rparr>))
        \<lparr>utterance := Some (plain_utterance [])\<rparr>)"
  by (simp add: speak_defs sample_defs engine_defs log_defs sanitize_defs)

text \<open>
  Claim C1, refuted as stated, on an engine that reports \<^verbatim>\<open>speaking\<close> only once an
  utterance has begun (\<open>reports_queued\<close> is false): \<^verbatim>\<open>speak('A')\<close> and then
  \<^verbatim>\<open>speak('B')\<close> on an idle reader, the second call made before the engine has begun
  the first utterance. The engine reports neither speaking nor paused, \<open>stop\<close> does
  nothing, and the second utterance is queued behind the first: no cancel was issued.
\<close>

theorem second_speak_queues_behind_pending:
  "reports_queued idle_engine = False \<and>
   synth (snd (speak (ascii ''B'') no_options
       (snd (speak (ascii ''A'') no_options (fresh_reader idle_engine))))) =
   Some \<lparr>speaking = False, paused = False,
         queue = [plain_utterance (ascii ''A''), plain_utterance (ascii ''B'')],
         calls = [CallSpeak (plain_utterance (ascii ''A'')),
                  CallSpeak (plain_utterance (ascii ''B''))],
         speak_throws = False, reports_queued = False\<rparr>"
  by (simp add: speak_defs sample_defs engine_defs log_defs sanitize_defs)

text \<open>The same two calls on an engine that reports \<^verbatim>\<open>speaking\<close> as soon as an utterance
  is queued: there the first utterance is cancelled.\<close>

lemma second_speak_cancels_on_eager_engine:
  "map_option calls (synth (snd (speak (ascii ''B'') no_options
       (snd (speak (ascii ''A'') no_options (fresh_reader eager_idle_engine)))))) =
   Some [CallSpeak (plain_utterance (ascii ''A'')), CallCancel,
         CallSpeak (plain_utterance (ascii ''B''))] \<and>
   map_option queue (synth (snd (speak (ascii ''B'') no_options
       (snd (speak (ascii ''A'') no_options (fresh_reader eager_idle_engine)))))) =
   Some [plain_utterance (ascii ''B'')]"
  by (simp add: speak_defs sample_defs engine_defs log_defs sanitize_defs)

text \<open>
  Claim C1 as amended. Take a call of \<open>speak\<close> with a text that is not blank, on a
  reader whose engine accepts the utterance and whose rate, pitch and volume for the call
  are finite. The call returns \<^verbatim>\<open>true\<close> and stores the utterance it submits, whose
  text is the sanitized text. If the engine reports at that moment that it is speaking
  or paused, the reader cancels the engine before it submits: the queue then holds the
  new utterance and nothing else, whatever it held before, and the operations carried
  out are a cancel followed by the submission. If the engine reports neither, no cancel
  is issued: the new utterance is queued behind what the queue holds, and the only
  operation carried out is the submission.
\<close>

theorem speak_supersedes_active:
  assumes "trim text \<noteq> []" "synth r = Some e" "\<not> speak_throws e"
    and "finite_num (js_or (opt_rate opts) (rate (settings r)))"
    and "finite_num (js_or (opt_pitch opts) (pitch (settings r)))"
    and "finite_num (js_or (opt_volume opts) (volume (settings r)))"
  shows "\<exists>u e'. fst (speak text opts r) = Returned True \<and>
     utterance (snd (speak text opts r)) = Some u \<and> u_text u = cleanText text \<and>
     synth (snd (speak text opts r)) = Some e' \<and>
     (speaking e \<or> paused e \<longrightarrow>
        queue e' = [u] \<and> calls e' = calls e @ [CallCancel, CallSpeak u]) \<and>
     (\<not> speaking e \<and> \<not> paused e \<longrightarrow>
        queue e' = queue e @ [u] \<and> calls e' = calls e @ [CallSpeak u])"
proof -
  have c: "speak text opts r =
     submit (built text opts r)
       ((snd (stop r))\<lparr>currentText := cleanText text, utterance := Some (built text opts r)\<rparr>)"
    by (rule speak_configured [OF assms(1,2,4,5,6)])
  show ?thesis
  proof (cases "speaking e \<or> paused e")
    case True
    with c assms(2,3) show ?thesis
      by (auto simp: submit_def stop_def log_defs engine_defs built_def)
  next
    case False
    with c assms(2,3) show ?thesis
      by (auto simp: submit_def stop_def log_defs engine_defs built_def)
  qed
qed

text \<open>Claim C1 as amended, at \<^verbatim>\<open>speak('B')\<close> on a reader whose engine is speaking the
  utterance of \<^verbatim>\<open>A\<close>, and on a reader whose engine is at rest.\<close>

theorem speak_supersedes_active_witness:
  "queue busy_engine = [plain_utterance (ascii ''A'')] \<and>
   (\<exists>u e'. fst (speak (ascii ''B'') no_options (fresh_reader busy_engine)) = Returned True \<and>
      utterance (snd (speak (ascii ''B'') no_options (fresh_reader busy_engine))) = Some u \<and>
      u_text u = ascii ''B'' \<and>
      synth (snd (speak (ascii ''B'') no_options (fresh_reader busy_engine))) = Some e' \<and>
      queue e' = [u] \<and>
      calls e' = [CallSpeak (plain_utterance (ascii ''A'')), CallCancel, CallSpeak u]) \<and>
   (\<exists>u e'. fst (speak (ascii ''B'') no_options (fresh_reader idle_engine)) = Returned True \<and>
      synth (snd (speak (ascii ''B'') no_options (fresh_reader idle_engine))) = Some e' \<and>
      queue e' = [u] \<and> calls e' = [CallSpeak u])"
proof -
  have h: "trim (ascii ''B'') \<noteq> []" "synth (fresh_reader busy_engine) = Some busy_engine"
    "\<not> speak_throws busy_engine"
    "finite_num (js_or (opt_rate no_options) (rate (settings (fresh_reader busy_engine))))"
    "finite_num (js_or (opt_pitch no_options) (pitch (settings (fresh_reader busy_engine))))"
    "finite_num (js_or (opt_volume no_options) (volume (settings (fresh_reader busy_engine))))"
    by (simp_all add: sample_defs sanitize_defs)
  have i: "trim (ascii ''B'') \<noteq> []" "synth (fresh_reader idle_engine) = Some idle_engine"
    "\<not> speak_throws idle_engine"
    "finite_num (js_or (opt_rate no_options) (rate (settings (fresh_reader idle_engine))))"
    "finite_num (js_or (opt_pitch no_options) (pitch (settings (fresh_reader idle_engine))))"
    "finite_num (js_or (opt_volume no_options) (volume (settings (fresh_reader idle_engine))))"
    by (simp_all add: sample_defs sanitize_defs)
  have c: "cleanText (ascii ''B'') = ascii ''B''"
    "calls busy_engine = [CallSpeak (plain_utterance (ascii ''A''))]"
    "queue busy_engine = [plain_utterance (ascii ''A'')]"
    "speaking busy_engine" "\<not> speaking idle_engine" "\<not> paused idle_engine"
    "calls idle_engine = []" "queue idle_engine = []"
    by (simp_all add: sanitize_defs busy_engine_def idle_engine_def)
  from speak_supersedes_active [OF h] c
  have a: "\<exists>u e'. fst (speak (ascii ''B'') no_options (fresh_reader busy_engine)) = Returned True \<and>
      utterance (snd (speak (ascii ''B'') no_options (fresh_reader busy_engine))) = Some u \<and>
      u_text u = ascii ''B'' \<and>
      synth (snd (speak (ascii ''B'') no_options (fresh_reader busy_engine))) = Some e' \<and>
      queue e' = [u] \<and>
      calls e' = [CallSpeak (plain_utterance (ascii ''A'')), CallCancel, CallSpeak u]"
    by simp
  from speak_supersedes_active [OF i] c
  have b: "\<exists>u e'. fst (speak (ascii ''B'') no_options (fresh_reader idle_engine)) = Returned True \<and>
      synth (snd (speak (ascii ''B'') no_options (fresh_reader idle_engine))) = Some e' \<and>
      queue e' = [u] \<and> calls e' = [CallSpeak u]"
    by auto
  from a b c(3) show ?thesis by blast
qed

text \<open>
  Claim C10. In a call of \<open>speak\<close> that gets to configure its utterance (the text is not
  blank, there is an engine, and the numbers assigned are finite), a rate, pitch or volume
  option that is absent or falsy (\<^verbatim>\<open>0\<close>, \<^verbatim>\<open>NaN\<close>) is passed over and the utterance gets
  the value of the reader's settings for that field; so an option of \<^verbatim>\<open>0\<close> never
  reaches the utterance.
\<close>

theorem speak_falsy_option_uses_setting:
  assumes "trim text \<noteq> []" "synth r = Some e"
    and "finite_num (js_or (opt_rate opts) (rate (settings r)))"
    and "finite_num (js_or (opt_pitch opts) (pitch (settings r)))"
    and "finite_num (js_or (opt_volume opts) (volume (settings r)))"
  shows "\<exists>u. utterance (snd (speak text opts r)) = Some u \<and>
     ((\<forall>x. opt_rate opts = Some x \<longrightarrow> \<not> truthy x) \<longrightarrow> u_rate u = rate (settings r)) \<and>
     ((\<forall>x. opt_pitch opts = Some x \<longrightarrow> \<not> truthy x) \<longrightarrow> u_pitch u = pitch (settings r)) \<and>
     ((\<forall>x. opt_volume opts = Some x \<longrightarrow> \<not> truthy x) \<longrightarrow> u_volume u = volume (settings r))"
proof -
  have f: "(\<forall>x. a = Some x \<longrightarrow> \<not> truthy x) \<Longrightarrow> js_or a b = b" for a b
    by (cases a) simp_all
  have "utterance (snd (speak text opts r)) = Some (built text opts r)"
    unfolding speak_configured [OF assms]
    by (simp add: submit_def stop_def log_defs assms(2))
  then show ?thesis
    by (auto simp: built_def f)
qed

text \<open>Claim C10 at \<^verbatim>\<open>speak('A', {rate: 0, volume: NaN})\<close> on a fresh reader: the
  utterance gets the rate 0.8, the pitch 1 and the volume 0.9 of the settings.\<close>

theorem speak_falsy_option_uses_setting_witness:
  "\<exists>u. utterance (snd (speak (ascii ''A'') falsy_options (fresh_reader idle_engine))) = Some u \<and>
     u_rate u = Num (8 / 10) \<and> u_pitch u = Num 1 \<and> u_volume u = Num (9 / 10)"
proof -
  have h: "trim (ascii ''A'') \<noteq> []" "synth (fresh_reader idle_engine) = Some idle_engine"
    "finite_num (js_or (opt_rate falsy_options) (rate (settings (fresh_reader idle_engine))))"
    "finite_num (js_or (opt_pitch falsy_options) (pitch (settings (fresh_reader idle_engine))))"
    "finite_num (js_or (opt_volume falsy_options) (volume (settings (fresh_reader idle_engine))))"
    by (simp_all add: sample_defs sanitize_defs)
  have o: "\<forall>x. opt_rate falsy_options = Some x \<longrightarrow> \<not> truthy x"
    "\<forall>x. opt_pitch falsy_options = Some x \<longrightarrow> \<not> truthy x"
    "\<forall>x. opt_volume falsy_options = Some x \<longrightarrow> \<not> truthy x"
    by (simp_all add: falsy_options_def)
  have s: "settings (fresh_reader idle_engine) =
      \<lparr>rate = Num (8 / 10), pitch = Num 1, volume = Num (9 / 10)\<rparr>"
    by (simp add: fresh_reader_def)
  from speak_falsy_option_uses_setting [OF h] o s show ?thesis
    by simp
qed

section \<open>Properties of the functions that start reading\<close>




section \<open>Properties of the preference store\<close>

lemmas parse_defs = parseFloat_def to_double_def ascii_def is_space_def is_digit_def
  digits_value_def exponent_part_def scale10_def Let_def

lemma parseFloat_samples:
  "parseFloat (ascii ''abc'') = NaN"
  "parseFloat (ascii ''1.5'') = Num (3 / 2)"
  "parseFloat (ascii ''0.8'') = Num (8 / 10)"
  by (simp_all add: parse_defs)

text \<open>
  Claim C8, refuted as stated: with the malformed text \<^verbatim>\<open>abc\<close> stored under
  \<^verbatim>\<open>voiceRate\<close>, the rate loaded is \<^verbatim>\<open>NaN\<close>, not the default 0.8 the reader started
  with.
\<close>

theorem malformed_rate_is_loaded_as_NaN:
  "rate (settings (fresh_reader idle_engine)) = Num (8 / 10) \<and>
   rate (settings (loadSavedSettings [ascii ''voiceRate'' \<mapsto> ascii ''abc'']
       (fresh_reader idle_engine))) = NaN"
  by (simp add: loadSavedSettings_def load_field_def fresh_reader_def parse_defs)

text \<open>
  Claim C8 as amended. Loading has a result for every content of the storage. A field
  whose stored value is missing or the empty string keeps its default (rate 0.8, pitch 1,
  volume 0.9); a field whose stored value is any other string becomes \<^verbatim>\<open>parseFloat\<close> of
  that string, whatever that is (\<^verbatim>\<open>NaN\<close> for a string with no numeric prefix). The
  auto-read flag is true exactly when the string \<^verbatim>\<open>true\<close> is stored for it.
\<close>

theorem load_defaults_or_parseFloat:
  "(store (ascii ''voiceRate'') = None \<or> store (ascii ''voiceRate'') = Some [] \<longrightarrow>
      rate (settings (loadSavedSettings store (fresh_reader e))) = Num (8 / 10)) \<and>
   (store (ascii ''voicePitch'') = None \<or> store (ascii ''voicePitch'') = Some [] \<longrightarrow>
      pitch (settings (loadSavedSettings store (fresh_reader e))) = Num 1) \<and>
   (store (ascii ''voiceVolume'') = None \<or> store (ascii ''voiceVolume'') = Some [] \<longrightarrow>
      volume (settings (loadSavedSettings store (fresh_reader e))) = Num (9 / 10)) \<and>
   (\<forall>v. store (ascii ''voiceRate'') = Some v \<and> v \<noteq> [] \<longrightarrow>
      rate (settings (loadSavedSettings store (fresh_reader e))) = parseFloat v) \<and>
   (\<forall>v. store (ascii ''voicePitch'') = Some v \<and> v \<noteq> [] \<longrightarrow>
      pitch (settings (loadSavedSettings store (fresh_reader e))) = parseFloat v) \<and>
   (\<forall>v. store (ascii ''voiceVolume'') = Some v \<and> v \<noteq> [] \<longrightarrow>
      volume (settings (loadSavedSettings store (fresh_reader e))) = parseFloat v) \<and>
   (autoRead store \<longleftrightarrow> store (ascii ''autoReadSummary'') = Some (ascii ''true''))"
  by (auto simp: loadSavedSettings_def load_field_def fresh_reader_def autoRead_def Let_def)

text \<open>Claim C8 as amended, on a storage with the rate \<^verbatim>\<open>1.5\<close>, an empty volume and
  nothing else.\<close>

theorem load_defaults_or_parseFloat_witness:
  "settings (loadSavedSettings sample_store (fresh_reader idle_engine)) =
     \<lparr>rate = Num (3 / 2), pitch = Num 1, volume = Num (9 / 10)\<rparr> \<and>
   \<not> autoRead sample_store"
proof -
  have s: "sample_store (ascii ''voiceRate'') = Some (ascii ''1.5'')"
    "sample_store (ascii ''voicePitch'') = None"
    "sample_store (ascii ''voiceVolume'') = Some []"
    "sample_store (ascii ''autoReadSummary'') = None"
    "ascii ''1.5'' \<noteq> []"
    by (simp_all add: sample_store_def ascii_def)
  have p: "parseFloat (ascii ''1.5'') = Num (3 / 2)"
    by (simp add: parse_defs)
  have eq: "x = \<lparr>rate = rate x, pitch = pitch x, volume = volume x\<rparr>" for x :: voice_settings
    by simp
  from load_defaults_or_parseFloat [of sample_store idle_engine] s p
  have "rate (settings (loadSavedSettings sample_store (fresh_reader idle_engine))) = Num (3 / 2)"
    "pitch (settings (loadSavedSettings sample_store (fresh_reader idle_engine))) = Num 1"
    "volume (settings (loadSavedSettings sample_store (fresh_reader idle_engine))) = Num (9 / 10)"
    "\<not> autoRead sample_store"
    by simp_all
  then show ?thesis
    using eq [of "settings (loadSavedSettings sample_store (fresh_reader idle_engine))"] by simp
qed

section \<open>Properties of the voice catalog\<close>

text \<open>The loop returns a voice exactly when the list of preferences splits into entries
  that match no voice of the catalog, then an entry of which the voice is the first
  match in the catalog.\<close>

lemma find_preferred_split:
  "find_preferred ps vs = Some v \<longleftrightarrow>
     (\<exists>qs p rest. ps = qs @ p # rest \<and> (\<forall>q \<in> set qs. \<forall>w \<in> set vs. \<not> matches q w) \<and>
        List.find (matches p) vs = Some v)"
proof (induction ps)
  case Nil
  then show ?case by simp
next
  case (Cons a ps)
  show ?case
  proof (cases "List.find (matches a) vs")
    case None
    then have no: "\<forall>w \<in> set vs. \<not> matches a w"
      by (simp add: find_None_iff)
    show ?thesis
    proof
      assume "find_preferred (a # ps) vs = Some v"
      with None Cons.IH obtain qs p rest where
        "ps = qs @ p # rest" "\<forall>q \<in> set qs. \<forall>w \<in> set vs. \<not> matches q w"
        "List.find (matches p) vs = Some v"
        by auto
      with no have "a # ps = (a # qs) @ p # rest \<and>
          (\<forall>q \<in> set (a # qs). \<forall>w \<in> set vs. \<not> matches q w) \<and>
          List.find (matches p) vs = Some v"
        by simp
      then show "\<exists>qs p rest. a # ps = qs @ p # rest \<and>
          (\<forall>q \<in> set qs. \<forall>w \<in> set vs. \<not> matches q w) \<and> List.find (matches p) vs = Some v"
        by blast
    next
      assume "\<exists>qs p rest. a # ps = qs @ p # rest \<and>
          (\<forall>q \<in> set qs. \<forall>w \<in> set vs. \<not> matches q w) \<and> List.find (matches p) vs = Some v"
      then obtain qs p rest where e: "a # ps = qs @ p # rest"
        and n: "\<forall>q \<in> set qs. \<forall>w \<in> set vs. \<not> matches q w"
        and f: "List.find (matches p) vs = Some v"
        by blast
      from e f None obtain qs' where "qs = a # qs'" "ps = qs' @ p # rest"
        by (cases qs) auto
      with n f Cons.IH have "find_preferred ps vs = Some v"
        by auto
      with None show "find_preferred (a # ps) vs = Some v"
        by simp
    qed
  next
    case (Some u)
    show ?thesis
    proof
      assume "find_preferred (a # ps) vs = Some v"
      with Some have "a # ps = [] @ a # ps \<and>
          (\<forall>q \<in> set []. \<forall>w \<in> set vs. \<not> matches q w) \<and> List.find (matches a) vs = Some v"
        by simp
      then show "\<exists>qs p rest. a # ps = qs @ p # rest \<and>
          (\<forall>q \<in> set qs. \<forall>w \<in> set vs. \<not> matches q w) \<and> List.find (matches p) vs = Some v"
        by blast
    next
      assume "\<exists>qs p rest. a # ps = qs @ p # rest \<and>
          (\<forall>q \<in> set qs. \<forall>w \<in> set vs. \<not> matches q w) \<and> List.find (matches p) vs = Some v"
      then obtain qs p rest where e: "a # ps = qs @ p # rest"
        and n: "\<forall>q \<in> set qs. \<forall>w \<in> set vs. \<not> matches q w"
        and f: "List.find (matches p) vs = Some v"
        by blast
      from Some have "u \<in> set vs" "matches a u"
        by (auto simp: find_Some_iff)
      with n e have "qs = []"
        by (cases qs) auto
      with e f Some show "find_preferred (a # ps) vs = Some v"
        by simp
    qed
  qed
qed

lemma find_preferred_hit:
  "p \<in> set ps \<Longrightarrow> w \<in> set vs \<Longrightarrow> matches p w \<Longrightarrow> \<exists>v. find_preferred ps vs = Some v"
proof (induction ps)
  case Nil
  then show ?case by simp
next
  case (Cons a ps)
  show ?case
  proof (cases "List.find (matches a) vs")
    case None
    with Cons.prems have "p \<in> set ps"
      by (auto simp: find_None_iff)
    with Cons.IH Cons.prems None show ?thesis by simp
  next
    case (Some u)
    then show ?thesis by simp
  qed
qed

lemma find_preferred_append_hit:
  "find_preferred ps vs = Some v \<Longrightarrow> find_preferred (ps @ qs) vs = Some v"
  by (induction ps) (auto split: option.splits)

lemma find_preferred_props:
  "find_preferred ps vs = Some v \<Longrightarrow> v \<in> set vs \<and> (\<exists>p \<in> set ps. matches p v)"
  by (induction ps) (auto split: option.splits simp: find_Some_iff)

lemma preferred_split: "preferredVoices = hindiEntries @ drop 4 preferredVoices"
  by (simp add: hindiEntries_def)

lemma hi_IN_is_hindi_entry: "ascii ''hi-IN'' \<in> set hindiEntries"
  by (simp add: hindiEntries_def preferredVoices_def)

text \<open>With no voice selected before and no stored index, a catalog that is not empty
  gets the result of the loop, or its first voice when the loop found none.\<close>

lemma initializeVoices_heuristic:
  "selectedVoice r = None \<Longrightarrow> catalog \<noteq> [] \<Longrightarrow>
   selectedVoice (initializeVoices catalog None r) =
     (case find_preferred preferredVoices catalog of
        Some v \<Rightarrow> Some v
      | None \<Rightarrow> Some (catalog ! 0))"
  by (simp add: initializeVoices_def Let_def split: option.splits)

lemmas catalog_defs = initializeVoices_def Let_def two_voices_def misnamed_catalog_def
  fresh_reader_def preferredVoices_def hindiEntries_def matches_def ascii_def

text \<open>
  Claim C6, refuted as stated: a catalog with a voice tagged \<^verbatim>\<open>en-US\<close> whose name is
  \<^verbatim>\<open>Hindi (India)\<close> and a voice tagged \<^verbatim>\<open>hi-IN\<close>. The third preference entry matches
  the first voice by its name, before the entry \<^verbatim>\<open>hi-IN\<close> is tried, and the voice
  selected is the one tagged \<^verbatim>\<open>en-US\<close>.
\<close>

theorem name_match_beats_hindi_tag:
  "selectedVoice (initializeVoices misnamed_catalog None (fresh_reader idle_engine)) =
     Some \<lparr>name = ascii ''Hindi (India)'', lang = ascii ''en-US''\<rparr>"
  by (simp add: catalog_defs)

text \<open>With a voice tagged \<^verbatim>\<open>hi-IN\<close> in the catalog the loop stops at one of the four
  Hindi entries, the entry \<^verbatim>\<open>hi-IN\<close> at the latest.\<close>

lemma hindi_entry_selected:
  assumes "\<exists>w \<in> set catalog. lang w = ascii ''hi-IN''" and "selectedVoice r = None"
  shows "\<exists>v. selectedVoice (initializeVoices catalog None r) = Some v \<and>
     find_preferred preferredVoices catalog = Some v \<and>
     (\<exists>p \<in> set hindiEntries. matches p v)"
proof -
  from assms(1) obtain w where w: "w \<in> set catalog" "lang w = ascii ''hi-IN''" by blast
  then have "matches (ascii ''hi-IN'') w" by (simp add: matches_def)
  with w hi_IN_is_hindi_entry obtain v where h: "find_preferred hindiEntries catalog = Some v"
    using find_preferred_hit by blast
  then have v: "find_preferred preferredVoices catalog = Some v"
    using find_preferred_append_hit [of hindiEntries catalog v "drop 4 preferredVoices"]
      preferred_split by simp
  from w have ne: "catalog \<noteq> []" by auto
  from find_preferred_props [OF h] have m: "\<exists>p \<in> set hindiEntries. matches p v"
    by simp
  from initializeVoices_heuristic [OF assms(2) ne] v
  have "selectedVoice (initializeVoices catalog None r) = Some v" by simp
  with v m show ?thesis by blast
qed

text \<open>
  Claim C6 as amended. The preference loop returns a voice exactly when the preference
  list splits into entries that match no voice of the catalog and then an entry of which
  that voice is the first match in the catalog: the first entry with a match wins, and
  of its matches the first in the catalog. With no voice selected before and no stored
  index, and a catalog that holds a voice tagged \<^verbatim>\<open>hi-IN\<close>, in whatever order, the
  voice selected is the one the loop returns; it matches one of the four Hindi entries,
  by name or by tag, so no English entry chose it; and it is tagged \<^verbatim>\<open>hi-IN\<close>
  provided every voice of the catalog that matches a Hindi entry is.
\<close>

theorem hindi_voice_preferred:
  "(\<forall>v. find_preferred preferredVoices catalog = Some v \<longleftrightarrow>
      (\<exists>qs p rest. preferredVoices = qs @ p # rest \<and>
         (\<forall>q \<in> set qs. \<forall>w \<in> set catalog. \<not> matches q w) \<and>
         List.find (matches p) catalog = Some v)) \<and>
   ((\<exists>w \<in> set catalog. lang w = ascii ''hi-IN'') \<and> selectedVoice r = None \<longrightarrow>
      (\<exists>v. selectedVoice (initializeVoices catalog None r) = Some v \<and>
         find_preferred preferredVoices catalog = Some v \<and>
         (\<exists>p \<in> set hindiEntries. matches p v) \<and>
         ((\<forall>w \<in> set catalog. (\<exists>p \<in> set hindiEntries. matches p w) \<longrightarrow>
              lang w = ascii ''hi-IN'')
            \<longrightarrow> lang v = ascii ''hi-IN'')))"
proof (intro conjI allI impI)
  fix v
  show "find_preferred preferredVoices catalog = Some v \<longleftrightarrow>
      (\<exists>qs p rest. preferredVoices = qs @ p # rest \<and>
         (\<forall>q \<in> set qs. \<forall>w \<in> set catalog. \<not> matches q w) \<and>
         List.find (matches p) catalog = Some v)"
    by (rule find_preferred_split)
next
  assume a: "(\<exists>w \<in> set catalog. lang w = ascii ''hi-IN'') \<and> selectedVoice r = None"
  then obtain v where v: "selectedVoice (initializeVoices catalog None r) = Some v"
    "find_preferred preferredVoices catalog = Some v" "\<exists>p \<in> set hindiEntries. matches p v"
    using hindi_entry_selected [of catalog r] by blast
  from find_preferred_props [OF v(2)] have "v \<in> set catalog" by simp
  with v show "\<exists>v. selectedVoice (initializeVoices catalog None r) = Some v \<and>
         find_preferred preferredVoices catalog = Some v \<and>
         (\<exists>p \<in> set hindiEntries. matches p v) \<and>
         ((\<forall>w \<in> set catalog. (\<exists>p \<in> set hindiEntries. matches p w) \<longrightarrow>
              lang w = ascii ''hi-IN'')
            \<longrightarrow> lang v = ascii ''hi-IN'')"
    by blast
qed

text \<open>Claim C6 as amended, on a catalog with an \<^verbatim>\<open>en-US\<close> voice first and a \<^verbatim>\<open>hi-IN\<close>
  voice second: the second is selected.\<close>

theorem hindi_voice_preferred_witness:
  "\<exists>v. selectedVoice (initializeVoices two_voices None (fresh_reader idle_engine)) = Some v \<and>
     v \<in> set two_voices \<and> lang v = ascii ''hi-IN''"
proof -
  have h: "\<exists>w \<in> set two_voices. lang w = ascii ''hi-IN''"
    "selectedVoice (fresh_reader idle_engine) = None"
    by (simp_all add: two_voices_def fresh_reader_def)
  have t: "\<forall>w \<in> set two_voices.
      (\<exists>p \<in> set hindiEntries. matches p w) \<longrightarrow> lang w = ascii ''hi-IN''"
    by (simp add: two_voices_def hindiEntries_def preferredVoices_def matches_def ascii_def)
  from hindi_voice_preferred [of two_voices "fresh_reader idle_engine"] h t obtain v where
    "selectedVoice (initializeVoices two_voices None (fresh_reader idle_engine)) = Some v"
    "find_preferred preferredVoices two_voices = Some v" "lang v = ascii ''hi-IN''"
    by blast
  with find_preferred_props [of preferredVoices two_voices v] show ?thesis
    by blast
qed

text \<open>
  Claim C9, refuted as stated: the stored index is 2; a first catalog of three voices
  selects its third voice; a second, shrunken catalog of the first two voices leaves
  that voice selected, which the catalog no longer holds, and falls back neither on the
  Hindi voice the preference loop finds there nor on the first voice.
\<close>

theorem stale_voice_kept_after_shrink:
  "selectedVoice (initializeVoices two_voices (Some 2)
       (initializeVoices three_voices (Some 2) (fresh_reader idle_engine))) =
     Some \<lparr>name = ascii ''Daniel'', lang = ascii ''en-GB''\<rparr> \<and>
   \<lparr>name = ascii ''Daniel'', lang = ascii ''en-GB''\<rparr> \<notin> set two_voices \<and>
   find_preferred preferredVoices two_voices =
     Some \<lparr>name = ascii ''Lekha'', lang = ascii ''hi-IN''\<rparr> \<and>
   two_voices ! 0 = \<lparr>name = ascii ''Zira'', lang = ascii ''en-US''\<rparr>"
  by (simp add: catalog_defs three_voices_def)

text \<open>
  Claim C9 as amended. On a catalog that is not empty, a stored index inside the catalog
  selects the voice at that index, whatever the selection step chose; a stored index
  behind the end of the catalog leaves the selection exactly as it is with no stored
  index at all. That selection is never empty: when no voice was selected before it is
  the result of the preference loop or, failing that, the first voice of the catalog;
  when a voice was selected before, it is that voice, in the catalog or not.
\<close>

theorem saved_index_override:
  assumes "catalog \<noteq> []"
  shows "(\<forall>i. saved = Some i \<and> i < length catalog \<longrightarrow>
            selectedVoice (initializeVoices catalog saved r) = Some (catalog ! i)) \<and>
         ((\<forall>i. saved = Some i \<longrightarrow> length catalog \<le> i) \<longrightarrow>
            selectedVoice (initializeVoices catalog saved r) =
              selectedVoice (initializeVoices catalog None r)) \<and>
         selectedVoice (initializeVoices catalog None r) \<noteq> None \<and>
         (selectedVoice r = None \<longrightarrow>
            selectedVoice (initializeVoices catalog None r) =
              (case find_preferred preferredVoices catalog of
                 Some v \<Rightarrow> Some v
               | None \<Rightarrow> Some (catalog ! 0))) \<and>
         (\<forall>v. selectedVoice r = Some v \<longrightarrow>
            selectedVoice (initializeVoices catalog None r) = Some v)"
  using assms
  by (cases saved) (auto simp: initializeVoices_def Let_def split: option.splits)

text \<open>Claim C9 as amended, on a catalog of two voices: on a fresh reader the stored
  index 0 selects the first voice over the Hindi voice the loop prefers, and the stored
  index 5 leaves the Hindi voice; on a reader that holds a third voice, the stored
  index 5 leaves that voice.\<close>

theorem saved_index_override_witness:
  "selectedVoice (initializeVoices two_voices (Some 0) (fresh_reader idle_engine)) =
     Some \<lparr>name = ascii ''Zira'', lang = ascii ''en-US''\<rparr> \<and>
   selectedVoice (initializeVoices two_voices (Some 5) (fresh_reader idle_engine)) =
     Some \<lparr>name = ascii ''Lekha'', lang = ascii ''hi-IN''\<rparr> \<and>
   selectedVoice (initializeVoices two_voices (Some 5)
       ((fresh_reader idle_engine)
          \<lparr>selectedVoice := Some \<lparr>name = ascii ''Daniel'', lang = ascii ''en-GB''\<rparr>\<rparr>)) =
     Some \<lparr>name = ascii ''Daniel'', lang = ascii ''en-GB''\<rparr>"
proof -
  have n: "two_voices \<noteq> []" "(0::nat) < length two_voices" "length two_voices \<le> 5"
    "two_voices ! 0 = \<lparr>name = ascii ''Zira'', lang = ascii ''en-US''\<rparr>"
    "selectedVoice (fresh_reader idle_engine) = None"
    "selectedVoice ((fresh_reader idle_engine)
          \<lparr>selectedVoice := Some \<lparr>name = ascii ''Daniel'', lang = ascii ''en-GB''\<rparr>\<rparr>) =
       Some \<lparr>name = ascii ''Daniel'', lang = ascii ''en-GB''\<rparr>"
    by (simp_all add: two_voices_def fresh_reader_def)
  have f: "find_preferred preferredVoices two_voices =
      Some \<lparr>name = ascii ''Lekha'', lang = ascii ''hi-IN''\<rparr>"
    by (simp add: two_voices_def preferredVoices_def matches_def ascii_def)
  from saved_index_override [OF n(1), of "Some 0" "fresh_reader idle_engine"]
    saved_index_override [OF n(1), of "Some 5" "fresh_reader idle_engine"]
    saved_index_override [OF n(1), of "Some 5" "(fresh_reader idle_engine)
          \<lparr>selectedVoice := Some \<lparr>name = ascii ''Daniel'', lang = ascii ''en-GB''\<rparr>\<rparr>"]
    n f
  show ?thesis by simp
qed

end
